theory Spec2Isabelle
  imports Complex_Main
begin

section \<open>Data model of \<open>src/app.js\<close>\<close>

text \<open>
  A blendshape object maps channel names to numbers; an absent property reads as
  \<open>undefined\<close>, here \<open>None\<close>. A number is the real it denotes. The operations
  are given twice: first with exact subtraction, multiplication and addition, then
  with these operations as parameters, so that a statement holds whatever they round to.
  A value that may be \<open>null\<close> or \<open>undefined\<close> is an \<open>option\<close>.
\<close>

type_synonym blend = "string \<rightharpoonup> real"

text \<open>A glyph is the list of the Unicode code points of the emoji string.\<close>

type_synonym glyph = "nat list"

text \<open>The nullish coalescing operator \<open>x ?? d\<close>.\<close>

definition nullish :: "'a option \<Rightarrow> 'a \<Rightarrow> 'a" where
  "nullish x d = (case x of None \<Rightarrow> d | Some v \<Rightarrow> v)"

text \<open>\<open>EMOJI_SET\<close> and \<open>EMOTION_THRESHOLDS\<close> are object literals indexed by a
  computed key, so they are association lists in the order of the literal.\<close>

definition EMOJI_SET :: "(string \<times> glyph) list" where
  "EMOJI_SET =
     [(''neutral'', [0x1F610]),
      (''smile'', [0x1F642]),
      (''surprise'', [0x1F62E]),
      (''frown'', [0x1F621]),
      (''cheeky'', [0x1F61C])]"

definition EMOTION_THRESHOLDS :: "(string \<times> real) list" where
  "EMOTION_THRESHOLDS =
     [(''smile'', 0.25),
      (''surprise'', 0.28),
      (''frown'', 0.2),
      (''cheeky'', 0.22)]"

text \<open>One entry of the landmark model's \<open>categories\<close> array, and the
  blendshapes object that carries the array.\<close>

record category_entry =
  categoryName :: string
  score :: real

record face_blendshapes =
  categories :: "category_entry list option"

text \<open>The module state that the classification core reads and writes: the
  \<open>baseline\<close> variable, and the messages handed to \<open>flash\<close> so far.\<close>

record app_state =
  baseline :: "blend option"
  flashed :: "string list"

text \<open>The object literal \<open>expressionScores\<close> has four fixed properties.\<close>

record expression_scores =
  smile :: real
  surprise :: real
  frown :: real
  cheeky :: real

section \<open>Operations\<close>

text \<open>\<open>blendMap\<close>: the loop assigns \<open>out[cat.categoryName] = cat.score\<close> for each
  entry of \<open>blendshapes?.categories ?? []\<close>, a later entry overwriting an earlier
  one of the same name. Assigning a number to \<open>out["__proto__"]\<close> reaches the
  setter of the prototype, which ignores a value that is not an object: nothing is
  stored.\<close>

fun blendMap_loop :: "blend \<Rightarrow> category_entry list \<Rightarrow> blend" where
  "blendMap_loop out [] = out"
| "blendMap_loop out (cat # rest) =
     blendMap_loop
       (if categoryName cat = ''__proto__'' then out
        else out(categoryName cat \<mapsto> score cat))
       rest"

definition blendMap :: "face_blendshapes option \<Rightarrow> blend" where
  "blendMap blendshapes =
     blendMap_loop Map.empty
       (nullish (case blendshapes of None \<Rightarrow> None | Some bs \<Rightarrow> categories bs) [])"

text \<open>\<open>flash\<close> only draws its text on the canvas; the model records the text.\<close>

definition flash :: "string \<Rightarrow> app_state \<Rightarrow> app_state" where
  "flash text s = s\<lparr>flashed := flashed s @ [text]\<rparr>"

text \<open>\<open>calibrate\<close>: returns at once on a falsy argument, otherwise stores a
  shallow copy \<open>{ ...blend }\<close> of the argument and flashes a message.\<close>

definition calibrate :: "blend option \<Rightarrow> app_state \<Rightarrow> app_state" where
  "calibrate blend s =
     (case blend of
        None \<Rightarrow> s
      | Some v \<Rightarrow>
          flash ''Calibrated! Try smiling or opening your mouth.''
            (s\<lparr>baseline := Some v\<rparr>))"

text \<open>\<open>const b = baseline || {}\<close>.\<close>

definition baseline_or_empty :: "blend option \<Rightarrow> blend" where
  "baseline_or_empty bl = (case bl of None \<Rightarrow> Map.empty | Some b \<Rightarrow> b)"

text \<open>\<open>const get = (key) => (blend[key] ?? 0) - (b[key] ?? 0)\<close>. Here and in
  \<open>expressionScores\<close> below the arithmetic is exact; \<open>get_num\<close> and
  \<open>expressionScores_num\<close> of the next section leave it open.\<close>

definition get :: "blend \<Rightarrow> blend \<Rightarrow> string \<Rightarrow> real" where
  "get blend b key = nullish (blend key) 0 - nullish (b key) 0"

definition expressionScores :: "blend \<Rightarrow> blend \<Rightarrow> expression_scores" where
  "expressionScores blend b =
     \<lparr> smile = max (get blend b ''mouthSmileLeft'') (get blend b ''mouthSmileRight''),
       surprise = get blend b ''jawOpen'' * 0.9 + get blend b ''mouthPucker'' * 0.4,
       frown = max (get blend b ''mouthFrownLeft'') (get blend b ''mouthFrownRight''),
       cheeky =
         max (get blend b ''cheekPuffLeft'') (get blend b ''cheekPuffRight'')
         + nullish (Some (get blend b ''tongueOut'')) 0 \<rparr>"

text \<open>\<open>Object.entries\<close> lists the properties in the order of the literal.\<close>

definition Object_entries :: "expression_scores \<Rightarrow> (string \<times> real) list" where
  "Object_entries sc =
     [(''smile'', smile sc), (''surprise'', surprise sc),
      (''frown'', frown sc), (''cheeky'', cheeky sc)]"

text \<open>\<open>score > threshold\<close> with \<open>threshold = EMOTION_THRESHOLDS[expression]\<close>;
  a comparison with \<open>undefined\<close> is false.\<close>

definition above_threshold :: "string \<Rightarrow> real \<Rightarrow> bool" where
  "above_threshold expression sc =
     (case map_of EMOTION_THRESHOLDS expression of
        None \<Rightarrow> False
      | Some threshold \<Rightarrow> sc > threshold)"

text \<open>The \<open>for ... of\<close> loop over the entries, carrying
  \<open>(bestExpression, bestScore)\<close>.\<close>

fun select_loop :: "string \<times> real \<Rightarrow> (string \<times> real) list \<Rightarrow> string \<times> real" where
  "select_loop best [] = best"
| "select_loop (bestExpression, bestScore) ((expression, sc) # rest) =
     (if above_threshold expression sc \<and> sc > bestScore
      then select_loop (expression, sc) rest
      else select_loop (bestExpression, bestScore) rest)"

text \<open>The entries that the loop of \<open>pickEmoji\<close> visits, for a non-null \<open>blend\<close>
  and the stored baseline \<open>bl\<close>.\<close>

definition scored_entries :: "blend option \<Rightarrow> blend \<Rightarrow> (string \<times> real) list" where
  "scored_entries bl blend =
     Object_entries (expressionScores blend (baseline_or_empty bl))"

text \<open>The value of \<open>bestExpression\<close> when that loop ends.\<close>

definition bestExpression :: "blend option \<Rightarrow> blend \<Rightarrow> string" where
  "bestExpression bl blend =
     fst (select_loop (''neutral'', 0.15) (scored_entries bl blend))"

text \<open>\<open>pickEmoji\<close>; a property lookup that finds nothing is \<open>None\<close>.\<close>

definition pickEmoji :: "app_state \<Rightarrow> blend option \<Rightarrow> glyph option" where
  "pickEmoji s blend =
     (case blend of
        None \<Rightarrow> map_of EMOJI_SET ''neutral''
      | Some v \<Rightarrow> map_of EMOJI_SET (bestExpression (baseline s) v))"

section \<open>The operations over any arithmetic of the number type\<close>

text \<open>
  A JavaScript number is an IEEE double: a numeric literal denotes the double nearest
  to it, and each subtraction, multiplication and addition returns its exact result
  rounded. These four operations are the fields of \<open>number_ops\<close>. Comparison and
  \<open>Math.max\<close> do not round and stay those of the reals. The definitions of this
  section are the ones of the previous section with every literal and every
  arithmetic operation of the source taken from the parameter \<open>ar\<close>.
\<close>

record number_ops =
  num_lit :: "real \<Rightarrow> real"
  num_sub :: "real \<Rightarrow> real \<Rightarrow> real"
  num_mul :: "real \<Rightarrow> real \<Rightarrow> real"
  num_add :: "real \<Rightarrow> real \<Rightarrow> real"

text \<open>The arithmetic that rounds nothing.\<close>

definition exact_ops :: number_ops where
  "exact_ops =
     \<lparr> num_lit = (\<lambda>x. x), num_sub = (\<lambda>x y. x - y),
       num_mul = (\<lambda>x y. x * y), num_add = (\<lambda>x y. x + y) \<rparr>"

text \<open>\<open>const get = (key) => (blend[key] ?? 0) - (b[key] ?? 0)\<close>.\<close>

definition get_num :: "number_ops \<Rightarrow> blend \<Rightarrow> blend \<Rightarrow> string \<Rightarrow> real" where
  "get_num ar blend b key =
     num_sub ar (nullish (blend key) (num_lit ar 0)) (nullish (b key) (num_lit ar 0))"

definition expressionScores_num :: "number_ops \<Rightarrow> blend \<Rightarrow> blend \<Rightarrow> expression_scores" where
  "expressionScores_num ar blend b =
     \<lparr> smile = max (get_num ar blend b ''mouthSmileLeft'') (get_num ar blend b ''mouthSmileRight''),
       surprise =
         num_add ar
           (num_mul ar (get_num ar blend b ''jawOpen'') (num_lit ar 0.9))
           (num_mul ar (get_num ar blend b ''mouthPucker'') (num_lit ar 0.4)),
       frown = max (get_num ar blend b ''mouthFrownLeft'') (get_num ar blend b ''mouthFrownRight''),
       cheeky =
         num_add ar
           (max (get_num ar blend b ''cheekPuffLeft'') (get_num ar blend b ''cheekPuffRight''))
           (nullish (Some (get_num ar blend b ''tongueOut'')) (num_lit ar 0)) \<rparr>"

text \<open>\<open>score > threshold\<close>, the threshold being the number that the literal of
  \<open>EMOTION_THRESHOLDS\<close> denotes.\<close>

definition above_threshold_num :: "number_ops \<Rightarrow> string \<Rightarrow> real \<Rightarrow> bool" where
  "above_threshold_num ar expression sc =
     (case map_of EMOTION_THRESHOLDS expression of
        None \<Rightarrow> False
      | Some threshold \<Rightarrow> sc > num_lit ar threshold)"

fun select_loop_num ::
  "number_ops \<Rightarrow> string \<times> real \<Rightarrow> (string \<times> real) list \<Rightarrow> string \<times> real" where
  "select_loop_num ar best [] = best"
| "select_loop_num ar (best, bestScore) ((expression, sc) # rest) =
     (if above_threshold_num ar expression sc \<and> sc > bestScore
      then select_loop_num ar (expression, sc) rest
      else select_loop_num ar (best, bestScore) rest)"

definition scored_entries_num ::
  "number_ops \<Rightarrow> blend option \<Rightarrow> blend \<Rightarrow> (string \<times> real) list" where
  "scored_entries_num ar bl blend =
     Object_entries (expressionScores_num ar blend (baseline_or_empty bl))"

definition bestExpression_num :: "number_ops \<Rightarrow> blend option \<Rightarrow> blend \<Rightarrow> string" where
  "bestExpression_num ar bl blend =
     fst (select_loop_num ar (''neutral'', num_lit ar 0.15) (scored_entries_num ar bl blend))"

definition pickEmoji_num :: "number_ops \<Rightarrow> app_state \<Rightarrow> blend option \<Rightarrow> glyph option" where
  "pickEmoji_num ar s blend =
     (case blend of
        None \<Rightarrow> map_of EMOJI_SET ''neutral''
      | Some v \<Rightarrow> map_of EMOJI_SET (bestExpression_num ar (baseline s) v))"

section \<open>The classifier as the specification words it\<close>

text \<open>
  The definitions of this section follow the wording of the specification, not the
  code: the closed enumeration of categories, the delta of a channel, the four
  scoring formulas, the four thresholds, and the selection as a left fold over the
  fixed order. They are what the code is compared with. Their arithmetic is that of
  the number type, the parameter \<open>ar\<close>.
\<close>

datatype expression = Smile | Surprise | Frown | Cheeky

datatype category = Neutral | Expression expression

fun expression_name :: "expression \<Rightarrow> string" where
  "expression_name Smile = ''smile''"
| "expression_name Surprise = ''surprise''"
| "expression_name Frown = ''frown''"
| "expression_name Cheeky = ''cheeky''"

fun category_name :: "category \<Rightarrow> string" where
  "category_name Neutral = ''neutral''"
| "category_name (Expression e) = expression_name e"

text \<open>\<open>delta(key)\<close>: the current value or 0, minus the baseline value or 0; an
  uncalibrated baseline counts as 0 everywhere.\<close>

definition spec_delta :: "number_ops \<Rightarrow> blend \<Rightarrow> blend option \<Rightarrow> string \<Rightarrow> real" where
  "spec_delta ar current bl key =
     num_sub ar
       (case current key of None \<Rightarrow> num_lit ar 0 | Some x \<Rightarrow> x)
       (case bl of
          None \<Rightarrow> num_lit ar 0
        | Some b \<Rightarrow> (case b key of None \<Rightarrow> num_lit ar 0 | Some y \<Rightarrow> y))"

fun spec_score :: "number_ops \<Rightarrow> blend \<Rightarrow> blend option \<Rightarrow> expression \<Rightarrow> real" where
  "spec_score ar current bl Smile =
     max (spec_delta ar current bl ''mouthSmileLeft'') (spec_delta ar current bl ''mouthSmileRight'')"
| "spec_score ar current bl Surprise =
     num_add ar
       (num_mul ar (spec_delta ar current bl ''jawOpen'') (num_lit ar 0.9))
       (num_mul ar (spec_delta ar current bl ''mouthPucker'') (num_lit ar 0.4))"
| "spec_score ar current bl Frown =
     max (spec_delta ar current bl ''mouthFrownLeft'') (spec_delta ar current bl ''mouthFrownRight'')"
| "spec_score ar current bl Cheeky =
     num_add ar
       (max (spec_delta ar current bl ''cheekPuffLeft'') (spec_delta ar current bl ''cheekPuffRight''))
       (spec_delta ar current bl ''tongueOut'')"

fun spec_threshold :: "expression \<Rightarrow> real" where
  "spec_threshold Smile = 0.25"
| "spec_threshold Surprise = 0.28"
| "spec_threshold Frown = 0.20"
| "spec_threshold Cheeky = 0.22"

definition spec_order :: "expression list" where
  "spec_order = [Smile, Surprise, Frown, Cheeky]"

text \<open>One step of the fold: the category becomes the new best exactly when its score
  is above its threshold and above the best score so far.\<close>

definition spec_step ::
  "number_ops \<Rightarrow> (expression \<Rightarrow> real) \<Rightarrow> category \<times> real \<Rightarrow> expression \<Rightarrow> category \<times> real" where
  "spec_step ar sc acc c =
     (if sc c > num_lit ar (spec_threshold c) \<and> sc c > snd acc
      then (Expression c, sc c) else acc)"

definition spec_classify :: "number_ops \<Rightarrow> blend \<Rightarrow> blend option \<Rightarrow> category" where
  "spec_classify ar current bl =
     fst (foldl (spec_step ar (spec_score ar current bl)) (Neutral, num_lit ar 0.15) spec_order)"

section \<open>Qualifying scores and the inputs used as examples\<close>

text \<open>An entry qualifies when its score is above the threshold of its expression and
  above the initial \<open>bestScore\<close> of the loop.\<close>

definition qualifying :: "number_ops \<Rightarrow> string \<times> real \<Rightarrow> bool" where
  "qualifying ar p = (above_threshold_num ar (fst p) (snd p) \<and> snd p > num_lit ar 0.15)"

text \<open>Smile and frown both score 0.4, cheeky scores 0.5. No operation on these
  values rounds: each is a value minus 0, a maximum, 0 times a factor, or a sum
  with 0.\<close>

definition tie_below_cheeky :: blend where
  "tie_below_cheeky =
     map_of [(''mouthSmileLeft'', 0.4), (''mouthFrownLeft'', 0.4), (''cheekPuffLeft'', 0.5)]"

text \<open>Frown and cheeky both score 0.4, smile scores 0.3; again nothing rounds.\<close>

definition tie_at_top :: blend where
  "tie_at_top =
     map_of [(''mouthSmileLeft'', 0.3), (''mouthFrownLeft'', 0.4), (''cheekPuffLeft'', 0.4)]"

section \<open>Facts about the model\<close>

subsection \<open>Exact arithmetic gives the operations of the first section\<close>

lemma exact_ops_fields:
  "num_lit exact_ops x = x"
  "num_sub exact_ops x y = x - y"
  "num_mul exact_ops x y = x * y"
  "num_add exact_ops x y = x + y"
  by (simp_all add: exact_ops_def)

lemma get_num_exact: "get_num exact_ops blend b key = get blend b key"
  by (simp add: get_num_def get_def exact_ops_fields)

lemma expressionScores_num_exact: "expressionScores_num exact_ops blend b = expressionScores blend b"
  by (simp add: expressionScores_num_def expressionScores_def get_num_exact exact_ops_fields)

lemma above_threshold_num_exact: "above_threshold_num exact_ops e v = above_threshold e v"
  by (simp add: above_threshold_num_def above_threshold_def exact_ops_fields
      split: option.splits)

lemma select_loop_num_exact: "select_loop_num exact_ops best es = select_loop best es"
  by (induction best es rule: select_loop.induct) (simp_all add: above_threshold_num_exact)

lemma scored_entries_num_exact: "scored_entries_num exact_ops bl blend = scored_entries bl blend"
  by (simp add: scored_entries_num_def scored_entries_def expressionScores_num_exact)

lemma bestExpression_num_exact: "bestExpression_num exact_ops bl blend = bestExpression bl blend"
  by (simp add: bestExpression_num_def bestExpression_def select_loop_num_exact
      scored_entries_num_exact exact_ops_fields)

lemma pickEmoji_num_exact: "pickEmoji_num exact_ops s blend = pickEmoji s blend"
  by (cases blend) (simp_all add: pickEmoji_num_def pickEmoji_def bestExpression_num_exact)

subsection \<open>The code computes what the specification names\<close>

lemma get_num_spec_delta:
  "get_num ar blend (baseline_or_empty bl) key = spec_delta ar blend bl key"
  by (simp add: get_num_def spec_delta_def baseline_or_empty_def nullish_def split: option.splits)

lemma scored_entries_num_spec:
  "scored_entries_num ar bl blend =
     map (\<lambda>c. (expression_name c, spec_score ar blend bl c)) spec_order"
  by (simp add: scored_entries_num_def Object_entries_def expressionScores_num_def
      get_num_spec_delta spec_order_def nullish_def)

lemma above_threshold_num_spec:
  "above_threshold_num ar (expression_name c) v = (v > num_lit ar (spec_threshold c))"
  by (cases c) (simp_all add: above_threshold_num_def EMOTION_THRESHOLDS_def)

lemma select_loop_num_refines_fold:
  "select_loop_num ar (category_name best, bs) (map (\<lambda>c. (expression_name c, f c)) cs) =
     (case foldl (spec_step ar f) (best, bs) cs of (b, s) \<Rightarrow> (category_name b, s))"
proof (induction cs arbitrary: best bs)
  case Nil
  show ?case by simp
next
  case (Cons c cs)
  let ?es = "map (\<lambda>c. (expression_name c, f c)) cs"
  show ?case
  proof (cases "f c > num_lit ar (spec_threshold c) \<and> f c > bs")
    case True
    then have step: "spec_step ar f (best, bs) c = (Expression c, f c)"
      by (simp add: spec_step_def)
    from True have "select_loop_num ar (category_name best, bs) ((expression_name c, f c) # ?es)
        = select_loop_num ar (category_name (Expression c), f c) ?es"
      by (simp add: above_threshold_num_spec)
    also have "\<dots> = (case foldl (spec_step ar f) (Expression c, f c) cs of
                        (b, s) \<Rightarrow> (category_name b, s))"
      by (rule Cons.IH)
    finally show ?thesis by (simp add: step)
  next
    case False
    then have step: "spec_step ar f (best, bs) c = (best, bs)"
      by (auto simp add: spec_step_def)
    from False have "select_loop_num ar (category_name best, bs) ((expression_name c, f c) # ?es)
        = select_loop_num ar (category_name best, bs) ?es"
      by (auto simp add: above_threshold_num_spec)
    also have "\<dots> = (case foldl (spec_step ar f) (best, bs) cs of
                        (b, s) \<Rightarrow> (category_name b, s))"
      by (rule Cons.IH)
    finally show ?thesis by (simp add: step)
  qed
qed

lemma bestExpression_num_spec:
  "bestExpression_num ar bl blend = category_name (spec_classify ar blend bl)"
proof -
  have "select_loop_num ar (category_name Neutral, num_lit ar 0.15) (scored_entries_num ar bl blend)
      = (case foldl (spec_step ar (spec_score ar blend bl)) (Neutral, num_lit ar 0.15) spec_order of
           (b, s) \<Rightarrow> (category_name b, s))"
    unfolding scored_entries_num_spec by (rule select_loop_num_refines_fold)
  then show ?thesis
    by (simp add: bestExpression_num_def spec_classify_def split: prod.splits)
qed

subsection \<open>The entries of the loop\<close>

lemma scored_entries_num_names:
  "map fst (scored_entries_num ar bl blend) = [''smile'', ''surprise'', ''frown'', ''cheeky'']"
  by (simp add: scored_entries_num_def Object_entries_def)

lemma scored_entries_num_functional:
  "(e, v) \<in> set (scored_entries_num ar bl blend) \<Longrightarrow>
   (e, w) \<in> set (scored_entries_num ar bl blend) \<Longrightarrow> v = w"
  by (auto simp add: scored_entries_num_def Object_entries_def)

lemma scored_entries_num_not_neutral:
  "(e, v) \<in> set (scored_entries_num ar bl blend) \<Longrightarrow> e \<noteq> ''neutral''"
  by (auto simp add: scored_entries_num_def Object_entries_def)

lemma pickEmoji_num_Some:
  "pickEmoji_num ar s (Some blend) = map_of EMOJI_SET (bestExpression_num ar (baseline s) blend)"
  by (simp add: pickEmoji_num_def)

lemma blendMap_None: "blendMap None = Map.empty"
  by (simp add: blendMap_def nullish_def)

subsection \<open>The selection loop on any list of entries\<close>

lemma select_loop_stays:
  "\<forall>(e, v) \<in> set es. above_threshold e v \<longrightarrow> v \<le> bs \<Longrightarrow> select_loop (be, bs) es = (be, bs)"
  by (induction es) auto

lemma select_loop_num_append:
  "select_loop_num ar st (xs @ ys) = select_loop_num ar (select_loop_num ar st xs) ys"
proof (induction xs arbitrary: st)
  case Nil
  show ?case by simp
next
  case (Cons x xs)
  obtain be bs where st: "st = (be, bs)" by (cases st)
  obtain e v where x: "x = (e, v)" by (cases x)
  show ?case unfolding st x by (simp add: Cons.IH)
qed

lemma select_loop_num_result:
  "select_loop_num ar (be, bs) es = (e', s') \<Longrightarrow>
     (e', s') = (be, bs) \<or> ((e', s') \<in> set es \<and> above_threshold_num ar e' s' \<and> s' > bs)"
proof (induction es arbitrary: be bs)
  case Nil
  then show ?case by simp
next
  case (Cons x es)
  obtain e v where x: "x = (e, v)" by (cases x)
  show ?case
  proof (cases "above_threshold_num ar e v \<and> v > bs")
    case True
    with Cons.prems x have "select_loop_num ar (e, v) es = (e', s')" by simp
    from Cons.IH [OF this] True x show ?thesis by auto
  next
    case False
    with Cons.prems x have "select_loop_num ar (be, bs) es = (e', s')" by auto
    from Cons.IH [OF this] show ?thesis by auto
  qed
qed

lemma select_loop_num_stays:
  "\<forall>(e, v) \<in> set es. above_threshold_num ar e v \<longrightarrow> v \<le> bs \<Longrightarrow>
   select_loop_num ar (be, bs) es = (be, bs)"
  by (induction es) auto

lemma select_loop_num_first_top:
  assumes top: "above_threshold_num ar e v" "v > bs"
    and pre: "\<forall>(e', v') \<in> set pre. above_threshold_num ar e' v' \<and> v' > bs \<longrightarrow> v' < v"
    and post: "\<forall>(e', v') \<in> set post. above_threshold_num ar e' v' \<longrightarrow> v' \<le> v"
  shows "select_loop_num ar (be, bs) (pre @ (e, v) # post) = (e, v)"
proof -
  obtain b1 s1 where r: "select_loop_num ar (be, bs) pre = (b1, s1)"
    by (cases "select_loop_num ar (be, bs) pre")
  from select_loop_num_result [OF r] pre top have "s1 < v" by auto
  with top have "select_loop_num ar (b1, s1) ((e, v) # post) = select_loop_num ar (e, v) post"
    by simp
  also have "\<dots> = (e, v)" using post by (rule select_loop_num_stays)
  finally show ?thesis by (simp add: select_loop_num_append r)
qed

subsection \<open>A baseline of zeros\<close>

lemma get_zero_baseline:
  assumes "\<forall>k v. z k = Some v \<longrightarrow> v = 0"
  shows "get blend (baseline_or_empty (Some z)) key = get blend (baseline_or_empty None) key"
proof -
  have "nullish (z key) 0 = (0::real)"
    using assms by (cases "z key") (simp_all add: nullish_def)
  then show ?thesis by (simp add: get_def baseline_or_empty_def nullish_def)
qed

section \<open>Selection\<close>

text \<open>
  C1. For every current vector and every baseline, and whatever the arithmetic of the
  number type rounds to, the expression that \<open>pickEmoji\<close> selects is the result of
  the fold of the specification: start with neutral and 0.15, visit smile, surprise,
  frown, cheeky in this order, and replace the best exactly when the score is above
  the threshold of the category and above the best score so far. The glyph returned
  is the one of that category. No entry with a score of at most 0.15 is the selected
  one.
\<close>

theorem pickEmoji_selection_fold:
  "bestExpression_num ar bl blend = category_name (spec_classify ar blend bl)
   \<and> pickEmoji_num ar s (Some blend)
       = map_of EMOJI_SET (category_name (spec_classify ar blend (baseline s)))
   \<and> (\<forall>e v. (e, v) \<in> set (scored_entries_num ar bl blend) \<and> v \<le> num_lit ar 0.15
          \<longrightarrow> bestExpression_num ar bl blend \<noteq> e)"
proof (intro conjI allI impI)
  show "bestExpression_num ar bl blend = category_name (spec_classify ar blend bl)"
    by (rule bestExpression_num_spec)
  show "pickEmoji_num ar s (Some blend)
      = map_of EMOJI_SET (category_name (spec_classify ar blend (baseline s)))"
    by (simp add: pickEmoji_num_Some bestExpression_num_spec)
next
  fix e v
  let ?es = "scored_entries_num ar bl blend"
  assume h: "(e, v) \<in> set ?es \<and> v \<le> num_lit ar 0.15"
  obtain e' s' where r: "select_loop_num ar (''neutral'', num_lit ar 0.15) ?es = (e', s')"
    by (cases "select_loop_num ar (''neutral'', num_lit ar 0.15) ?es")
  have best: "bestExpression_num ar bl blend = e'"
    unfolding bestExpression_num_def r by simp
  from select_loop_num_result [OF r]
  show "bestExpression_num ar bl blend \<noteq> e"
  proof
    assume "(e', s') = (''neutral'', num_lit ar 0.15)"
    with h best show ?thesis by (auto dest: scored_entries_num_not_neutral)
  next
    assume w: "(e', s') \<in> set ?es \<and> above_threshold_num ar e' s' \<and> s' > num_lit ar 0.15"
    show ?thesis
    proof
      assume "bestExpression_num ar bl blend = e"
      with best w have "(e, s') \<in> set ?es" by simp
      with h have "v = s'" by (blast dest: scored_entries_num_functional)
      with h w show False by simp
    qed
  qed
qed

text \<open>
  The theorem at exact arithmetic, the vector with \<open>mouthSmileLeft\<close> 0.3 and
  \<open>mouthSmileRight\<close> 0.1 and no baseline: smile is selected, and surprise, whose score
  is 0, is not.
\<close>

theorem pickEmoji_selection_fold_witness:
  "bestExpression_num exact_ops None (map_of [(''mouthSmileLeft'', 0.3), (''mouthSmileRight'', 0.1)])
     = ''smile''
   \<and> category_name (spec_classify exact_ops (map_of [(''mouthSmileLeft'', 0.3), (''mouthSmileRight'', 0.1)]) None)
     = ''smile''
   \<and> (''surprise'', 0) \<in> set (scored_entries_num exact_ops None (map_of [(''mouthSmileLeft'', 0.3), (''mouthSmileRight'', 0.1)]))
   \<and> (0::real) \<le> num_lit exact_ops 0.15
   \<and> bestExpression_num exact_ops None (map_of [(''mouthSmileLeft'', 0.3), (''mouthSmileRight'', 0.1)])
     \<noteq> ''surprise''"
proof -
  let ?b = "map_of [(''mouthSmileLeft'', 0.3::real), (''mouthSmileRight'', 0.1)]"
  note t = pickEmoji_selection_fold [of exact_ops None ?b "\<lparr>baseline = None, flashed = []\<rparr>"]
  have es: "scored_entries_num exact_ops None ?b =
      [(''smile'', 0.3), (''surprise'', 0), (''frown'', 0), (''cheeky'', 0)]"
    by (simp add: scored_entries_num_def Object_entries_def expressionScores_num_def
        get_num_def nullish_def baseline_or_empty_def exact_ops_fields)
  have best: "bestExpression_num exact_ops None ?b = ''smile''"
    unfolding bestExpression_num_def es
    by (simp add: above_threshold_num_def EMOTION_THRESHOLDS_def exact_ops_fields)
  from t best have spec: "category_name (spec_classify exact_ops ?b None) = ''smile''"
    by simp
  have m: "(''surprise'', 0) \<in> set (scored_entries_num exact_ops None ?b)
      \<and> (0::real) \<le> num_lit exact_ops 0.15"
    unfolding es by (simp add: exact_ops_fields)
  with t have "bestExpression_num exact_ops None ?b \<noteq> ''surprise''"
    by blast
  with best spec m show ?thesis by simp
qed

section \<open>Scores\<close>

text \<open>
  C2. For every current vector and every baseline, calibrated or not, the four
  scores that \<open>pickEmoji\<close> computes are the formulas of the specification over
  \<open>delta\<close>, where a missing key counts as 0; the subtraction, the products and the
  sums are those of the number type, whatever they round to. The entries that the
  selection loop visits carry exactly these scores.
\<close>

theorem expressionScores_formulas:
  "smile (expressionScores_num ar blend (baseline_or_empty bl)) =
     max (spec_delta ar blend bl ''mouthSmileLeft'') (spec_delta ar blend bl ''mouthSmileRight'')
   \<and> surprise (expressionScores_num ar blend (baseline_or_empty bl)) =
     num_add ar
       (num_mul ar (spec_delta ar blend bl ''jawOpen'') (num_lit ar 0.9))
       (num_mul ar (spec_delta ar blend bl ''mouthPucker'') (num_lit ar 0.4))
   \<and> frown (expressionScores_num ar blend (baseline_or_empty bl)) =
     max (spec_delta ar blend bl ''mouthFrownLeft'') (spec_delta ar blend bl ''mouthFrownRight'')
   \<and> cheeky (expressionScores_num ar blend (baseline_or_empty bl)) =
     num_add ar
       (max (spec_delta ar blend bl ''cheekPuffLeft'') (spec_delta ar blend bl ''cheekPuffRight''))
       (spec_delta ar blend bl ''tongueOut'')
   \<and> scored_entries_num ar bl blend =
     [(''smile'', spec_score ar blend bl Smile), (''surprise'', spec_score ar blend bl Surprise),
      (''frown'', spec_score ar blend bl Frown), (''cheeky'', spec_score ar blend bl Cheeky)]"
  by (simp add: scored_entries_num_def Object_entries_def expressionScores_num_def
      get_num_spec_delta nullish_def)

section \<open>Thresholds\<close>

text \<open>
  C3. The thresholds that classification uses are the constants smile 0.25, surprise
  0.28, frown 0.20 and cheeky 0.22: the table holds these four entries and no other,
  the threshold test of each expression compares the score with its constant, and
  each visit of the selection loop replaces the best exactly when the score is above
  that constant and above the best score so far.
\<close>

theorem emotion_thresholds_constants:
  "map_of EMOTION_THRESHOLDS ''smile'' = Some 0.25
   \<and> map_of EMOTION_THRESHOLDS ''surprise'' = Some 0.28
   \<and> map_of EMOTION_THRESHOLDS ''frown'' = Some 0.20
   \<and> map_of EMOTION_THRESHOLDS ''cheeky'' = Some 0.22
   \<and> map fst EMOTION_THRESHOLDS = [''smile'', ''surprise'', ''frown'', ''cheeky'']
   \<and> above_threshold ''smile'' v = (v > 0.25)
   \<and> above_threshold ''surprise'' v = (v > 0.28)
   \<and> above_threshold ''frown'' v = (v > 0.20)
   \<and> above_threshold ''cheeky'' v = (v > 0.22)
   \<and> select_loop (be, bs) ((''smile'', v) # rest) =
       (if v > 0.25 \<and> v > bs then select_loop (''smile'', v) rest else select_loop (be, bs) rest)
   \<and> select_loop (be, bs) ((''surprise'', v) # rest) =
       (if v > 0.28 \<and> v > bs then select_loop (''surprise'', v) rest else select_loop (be, bs) rest)
   \<and> select_loop (be, bs) ((''frown'', v) # rest) =
       (if v > 0.20 \<and> v > bs then select_loop (''frown'', v) rest else select_loop (be, bs) rest)
   \<and> select_loop (be, bs) ((''cheeky'', v) # rest) =
       (if v > 0.22 \<and> v > bs then select_loop (''cheeky'', v) rest else select_loop (be, bs) rest)
   \<and> above_threshold_num ar ''smile'' v = (v > num_lit ar 0.25)
   \<and> above_threshold_num ar ''surprise'' v = (v > num_lit ar 0.28)
   \<and> above_threshold_num ar ''frown'' v = (v > num_lit ar 0.20)
   \<and> above_threshold_num ar ''cheeky'' v = (v > num_lit ar 0.22)"
  by (simp add: EMOTION_THRESHOLDS_def above_threshold_def above_threshold_num_def)

section \<open>Null input\<close>

text \<open>
  C4. Whatever the stored baseline is, \<open>pickEmoji\<close> on a null vector returns the
  neutral glyph: the result is the same in every state.
\<close>

theorem pickEmoji_null_neutral:
  "pickEmoji s None = map_of EMOJI_SET ''neutral''
   \<and> pickEmoji s None = Some [0x1F610]
   \<and> pickEmoji s None = pickEmoji s' None"
  by (simp add: pickEmoji_def EMOJI_SET_def)

section \<open>Uncalibrated baseline\<close>

text \<open>
  C5. For every current vector, null or not, classification with no stored baseline
  gives the same glyph as classification with a stored baseline whose values are
  all 0.
\<close>

theorem uncalibrated_same_as_zero_baseline:
  assumes "baseline s1 = None" and "baseline s2 = Some z"
    and "\<forall>k v. z k = Some v \<longrightarrow> v = 0"
  shows "pickEmoji s1 V = pickEmoji s2 V"
proof (cases V)
  case None
  then show ?thesis by (simp add: pickEmoji_def)
next
  case (Some blend)
  have "expressionScores blend (baseline_or_empty (Some z)) = expressionScores blend (baseline_or_empty None)"
    unfolding expressionScores_def by (simp only: get_zero_baseline [OF assms(3)])
  then have "bestExpression (Some z) blend = bestExpression None blend"
    by (simp add: bestExpression_def scored_entries_def)
  with Some assms(1,2) show ?thesis by (simp add: pickEmoji_def)
qed

text \<open>
  The theorem at the baseline that maps every key to 0 and the vector with
  \<open>jawOpen\<close> 0.35: both classifications give the surprise glyph.
\<close>

theorem uncalibrated_same_as_zero_baseline_witness:
  "baseline \<lparr>baseline = None, flashed = []\<rparr> = None
   \<and> baseline \<lparr>baseline = Some (\<lambda>k. Some 0), flashed = []\<rparr> = Some (\<lambda>k. Some 0)
   \<and> pickEmoji \<lparr>baseline = None, flashed = []\<rparr> (Some (map_of [(''jawOpen'', 0.35), (''mouthPucker'', 0)]))
     = pickEmoji \<lparr>baseline = Some (\<lambda>k. Some 0), flashed = []\<rparr> (Some (map_of [(''jawOpen'', 0.35), (''mouthPucker'', 0)]))
   \<and> pickEmoji \<lparr>baseline = None, flashed = []\<rparr> (Some (map_of [(''jawOpen'', 0.35), (''mouthPucker'', 0)]))
     = Some [0x1F62E]"
proof -
  let ?s1 = "\<lparr>baseline = None, flashed = []\<rparr>"
  let ?z = "\<lambda>k::string. Some (0::real)"
  let ?s2 = "\<lparr>baseline = Some ?z, flashed = []\<rparr>"
  let ?V = "map_of [(''jawOpen'', 0.35::real), (''mouthPucker'', 0)]"
  have h1: "baseline ?s1 = None" by simp
  have h2: "baseline ?s2 = Some ?z" by simp
  have h3: "\<forall>k v. ?z k = Some v \<longrightarrow> v = 0" by simp
  have es: "scored_entries None ?V =
      [(''smile'', 0), (''surprise'', 0.315), (''frown'', 0), (''cheeky'', 0)]"
    by (simp add: scored_entries_def Object_entries_def expressionScores_def
        get_def nullish_def baseline_or_empty_def)
  have "bestExpression None ?V = ''surprise''"
    unfolding bestExpression_def es
    by (simp add: above_threshold_def EMOTION_THRESHOLDS_def)
  then have g: "pickEmoji ?s1 (Some ?V) = Some [0x1F62E]"
    by (simp add: pickEmoji_def EMOJI_SET_def)
  show ?thesis
    using h1 h2 g uncalibrated_same_as_zero_baseline [OF h1 h2 h3, of "Some ?V"]
    by simp
qed

section \<open>Ties\<close>

text \<open>
  C6, as stated, fails: with no baseline and the vector \<open>tie_below_cheeky\<close>, smile
  and frown have the same qualifying score 0.4, yet cheeky, with the higher score
  0.5, is selected, not smile. No operation rounds at this input, and exact
  arithmetic gives the entries of the code.
\<close>

theorem tie_not_selected_below_higher_score:
  "scored_entries None tie_below_cheeky =
     [(''smile'', 0.4), (''surprise'', 0), (''frown'', 0.4), (''cheeky'', 0.5)]
   \<and> scored_entries_num exact_ops None tie_below_cheeky = scored_entries None tie_below_cheeky
   \<and> qualifying exact_ops (''smile'', 0.4) \<and> qualifying exact_ops (''frown'', 0.4)
   \<and> above_threshold ''smile'' 0.4 \<and> above_threshold ''frown'' 0.4 \<and> (0.4::real) > 0.15
   \<and> bestExpression None tie_below_cheeky = ''cheeky''
   \<and> bestExpression_num exact_ops None tie_below_cheeky = ''cheeky''
   \<and> pickEmoji \<lparr>baseline = None, flashed = []\<rparr> (Some tie_below_cheeky) = Some [0x1F61C]"
proof -
  have es: "scored_entries None tie_below_cheeky =
     [(''smile'', 0.4), (''surprise'', 0), (''frown'', 0.4), (''cheeky'', 0.5)]"
    by (simp add: scored_entries_def Object_entries_def expressionScores_def
        get_def nullish_def baseline_or_empty_def tie_below_cheeky_def)
  have q: "qualifying exact_ops (''smile'', 0.4) \<and> qualifying exact_ops (''frown'', 0.4)"
    by (simp add: qualifying_def above_threshold_num_def EMOTION_THRESHOLDS_def exact_ops_fields)
  have a: "above_threshold ''smile'' 0.4 \<and> above_threshold ''frown'' 0.4 \<and> (0.4::real) > 0.15"
    by (simp add: above_threshold_def EMOTION_THRESHOLDS_def)
  have best: "bestExpression None tie_below_cheeky = ''cheeky''"
    unfolding bestExpression_def es
    by (simp add: above_threshold_def EMOTION_THRESHOLDS_def)
  then have "pickEmoji \<lparr>baseline = None, flashed = []\<rparr> (Some tie_below_cheeky) = Some [0x1F61C]"
    by (simp add: pickEmoji_def EMOJI_SET_def)
  with es q a best show ?thesis
    by (simp add: scored_entries_num_exact bestExpression_num_exact)
qed

text \<open>
  C6, amended. Whatever the arithmetic rounds to: if two categories have exactly equal
  qualifying scores, no category has a greater qualifying score, and no category
  before the first of the two has that same qualifying score, then the first of the
  two is selected and the second is not. Positions are those of the loop: smile,
  surprise, frown, cheeky.
\<close>

theorem earliest_of_top_tie_selected:
  assumes ij: "i < j" "j < length (scored_entries_num ar bl blend)"
    and tie: "scored_entries_num ar bl blend ! i = (ei, v)"
      "scored_entries_num ar bl blend ! j = (ej, v)"
    and qual: "qualifying ar (ei, v)" "qualifying ar (ej, v)"
    and top: "\<forall>k < length (scored_entries_num ar bl blend).
                qualifying ar (scored_entries_num ar bl blend ! k)
                \<longrightarrow> snd (scored_entries_num ar bl blend ! k) \<le> v"
    and first: "\<forall>k < i. \<not> (qualifying ar (scored_entries_num ar bl blend ! k)
                            \<and> snd (scored_entries_num ar bl blend ! k) = v)"
  shows "bestExpression_num ar bl blend = ei \<and> bestExpression_num ar bl blend \<noteq> ej
         \<and> map fst (scored_entries_num ar bl blend) = [''smile'', ''surprise'', ''frown'', ''cheeky'']"
proof -
  let ?es = "scored_entries_num ar bl blend"
  let ?floor = "num_lit ar 0.15"
  from ij have i: "i < length ?es" by simp
  have split: "?es = take i ?es @ (ei, v) # drop (Suc i) ?es"
    using id_take_nth_drop [OF i] tie(1) by simp
  from qual(1) have a: "above_threshold_num ar ei v" and f: "v > ?floor"
    by (simp_all add: qualifying_def)
  have pre: "\<forall>(e', v') \<in> set (take i ?es). above_threshold_num ar e' v' \<and> v' > ?floor \<longrightarrow> v' < v"
  proof (clarify)
    fix e' v'
    assume m: "(e', v') \<in> set (take i ?es)"
      and a': "above_threshold_num ar e' v'" and f': "v' > ?floor"
    from m obtain k where k: "k < i" "?es ! k = (e', v')"
      using i by (auto simp add: in_set_conv_nth)
    from a' f' k have q: "qualifying ar (?es ! k)" by (simp add: qualifying_def)
    from k i have "k < length ?es" by simp
    with top q have "snd (?es ! k) \<le> v" by blast
    moreover from first k q have "snd (?es ! k) \<noteq> v" by blast
    ultimately show "v' < v" using k by simp
  qed
  have post: "\<forall>(e', v') \<in> set (drop (Suc i) ?es). above_threshold_num ar e' v' \<longrightarrow> v' \<le> v"
  proof (clarify)
    fix e' v'
    assume m: "(e', v') \<in> set (drop (Suc i) ?es)" and a': "above_threshold_num ar e' v'"
    from m have "(e', v') \<in> set ?es" by (rule in_set_dropD)
    then obtain k where k: "k < length ?es" "?es ! k = (e', v')"
      by (auto simp add: in_set_conv_nth)
    show "v' \<le> v"
    proof (cases "v' > ?floor")
      case True
      with a' k have "qualifying ar (?es ! k)" by (simp add: qualifying_def)
      with top k have "snd (?es ! k) \<le> v" by blast
      with k show ?thesis by simp
    next
      case False
      with f show ?thesis by simp
    qed
  qed
  have "select_loop_num ar (''neutral'', ?floor) (take i ?es @ (ei, v) # drop (Suc i) ?es) = (ei, v)"
    using a f pre post by (rule select_loop_num_first_top)
  with split have sel: "select_loop_num ar (''neutral'', ?floor) ?es = (ei, v)" by simp
  have best: "bestExpression_num ar bl blend = ei"
    unfolding bestExpression_num_def sel by simp
  have d: "distinct (map fst ?es)" by (simp add: scored_entries_num_names)
  have "(map fst ?es ! i = map fst ?es ! j) = (i = j)"
    using d ij by (intro nth_eq_iff_index_eq) simp_all
  with ij tie have "ei \<noteq> ej" by simp
  with best show ?thesis by (simp add: scored_entries_num_names)
qed

text \<open>
  The theorem at exact arithmetic and \<open>tie_at_top\<close> with no baseline, an input at
  which no operation rounds: frown and cheeky tie at 0.4, smile qualifies with 0.3,
  and frown is selected.
\<close>

theorem earliest_of_top_tie_selected_witness:
  "(2::nat) < 3 \<and> 3 < length (scored_entries_num exact_ops None tie_at_top)
   \<and> scored_entries_num exact_ops None tie_at_top ! 0 = (''smile'', 0.3)
   \<and> scored_entries_num exact_ops None tie_at_top ! 1 = (''surprise'', 0)
   \<and> scored_entries_num exact_ops None tie_at_top ! 2 = (''frown'', 0.4)
   \<and> scored_entries_num exact_ops None tie_at_top ! 3 = (''cheeky'', 0.4)
   \<and> qualifying exact_ops (''smile'', 0.3)
   \<and> qualifying exact_ops (''frown'', 0.4) \<and> qualifying exact_ops (''cheeky'', 0.4)
   \<and> bestExpression_num exact_ops None tie_at_top = ''frown''
   \<and> bestExpression_num exact_ops None tie_at_top \<noteq> ''cheeky''
   \<and> bestExpression None tie_at_top = ''frown''"
proof -
  let ?es = "scored_entries_num exact_ops None tie_at_top"
  have es: "?es = [(''smile'', 0.3), (''surprise'', 0), (''frown'', 0.4), (''cheeky'', 0.4)]"
    by (simp add: scored_entries_num_def Object_entries_def expressionScores_num_def
        get_num_def nullish_def baseline_or_empty_def tie_at_top_def exact_ops_fields)
  have h1: "(2::nat) < 3" by simp
  have h2: "3 < length ?es" by (simp add: es)
  have h3: "?es ! 2 = (''frown'', 0.4)" by (simp add: es)
  have h4: "?es ! 3 = (''cheeky'', 0.4)" by (simp add: es)
  have h5: "qualifying exact_ops (''frown'', 0.4)"
    by (simp add: qualifying_def above_threshold_num_def EMOTION_THRESHOLDS_def exact_ops_fields)
  have h6: "qualifying exact_ops (''cheeky'', 0.4)"
    by (simp add: qualifying_def above_threshold_num_def EMOTION_THRESHOLDS_def exact_ops_fields)
  have h7: "\<forall>k < length ?es. qualifying exact_ops (?es ! k) \<longrightarrow> snd (?es ! k) \<le> 0.4"
    unfolding es by (simp add: All_less_Suc)
  have h8: "\<forall>k < 2. \<not> (qualifying exact_ops (?es ! k) \<and> snd (?es ! k) = 0.4)"
    unfolding es by (simp add: All_less_Suc numeral_2_eq_2)
  have q0: "qualifying exact_ops (''smile'', 0.3)"
    by (simp add: qualifying_def above_threshold_num_def EMOTION_THRESHOLDS_def exact_ops_fields)
  from earliest_of_top_tie_selected [OF h1 h2 h3 h4 h5 h6 h7 h8]
  have r: "bestExpression_num exact_ops None tie_at_top = ''frown''
      \<and> bestExpression_num exact_ops None tie_at_top \<noteq> ''cheeky''"
    by simp
  then have "bestExpression None tie_at_top = ''frown''"
    by (simp add: bestExpression_num_exact)
  moreover have "?es ! 0 = (''smile'', 0.3)" and "?es ! 1 = (''surprise'', 0)"
    by (simp_all add: es)
  ultimately show ?thesis using r h1 h2 h3 h4 h5 h6 q0 by blast
qed

section \<open>Calibration\<close>

text \<open>
  C7. \<open>calibrate\<close> on a null vector returns the state as it was, so the stored
  baseline is unchanged; on a non-null vector the stored baseline becomes exactly
  that vector, whatever the baseline was before.
\<close>

theorem calibrate_null_noop_else_replace:
  "calibrate None s = s
   \<and> baseline (calibrate None s) = baseline s
   \<and> baseline (calibrate (Some v) s) = Some v"
  by (simp add: calibrate_def flash_def)

text \<open>
  C8. Calibrating twice in succession with the same vector leaves the same stored
  baseline as calibrating once, and every later classification gives the same glyph.
\<close>

theorem calibrate_idempotent:
  "baseline (calibrate V (calibrate V s)) = baseline (calibrate V s)
   \<and> pickEmoji (calibrate V (calibrate V s)) blend = pickEmoji (calibrate V s) blend"
  by (cases V; cases blend) (simp_all add: calibrate_def flash_def pickEmoji_def)

section \<open>Monotonicity\<close>

text \<open>
  C9. If two current vectors agree on every channel but \<open>mouthSmileLeft\<close>, and the
  value of that channel (0 when absent) is not smaller in the second, then with the
  same baseline the smile score of the second is not smaller than that of the first.
\<close>

theorem smile_score_monotone:
  assumes others: "\<forall>k. k \<noteq> ''mouthSmileLeft'' \<longrightarrow> blend' k = blend k"
    and incr: "nullish (blend ''mouthSmileLeft'') 0 \<le> nullish (blend' ''mouthSmileLeft'') 0"
  shows "smile (expressionScores blend (baseline_or_empty bl))
         \<le> smile (expressionScores blend' (baseline_or_empty bl))"
proof -
  let ?b = "baseline_or_empty bl"
  from incr have l: "get blend ?b ''mouthSmileLeft'' \<le> get blend' ?b ''mouthSmileLeft''"
    by (simp add: get_def)
  from others have "blend' ''mouthSmileRight'' = blend ''mouthSmileRight''" by simp
  then have r: "get blend ?b ''mouthSmileRight'' = get blend' ?b ''mouthSmileRight''"
    by (simp add: get_def)
  from l r show ?thesis by (simp add: expressionScores_def max.coboundedI1 max.coboundedI2)
qed

text \<open>
  The theorem at \<open>mouthSmileLeft\<close> raised from 0.1 to 0.3 with \<open>mouthSmileRight\<close>
  0.2 and the baseline value 0.05: the smile score goes from 0.2 to 0.25.
\<close>

theorem smile_score_monotone_witness:
  "nullish (map_of [(''mouthSmileLeft'', 0.1::real), (''mouthSmileRight'', 0.2)] ''mouthSmileLeft'') 0
      \<le> nullish (map_of [(''mouthSmileLeft'', 0.3::real), (''mouthSmileRight'', 0.2)] ''mouthSmileLeft'') 0
   \<and> smile (expressionScores (map_of [(''mouthSmileLeft'', 0.1), (''mouthSmileRight'', 0.2)])
        (baseline_or_empty (Some (map_of [(''mouthSmileLeft'', 0.05)]))))
      \<le> smile (expressionScores (map_of [(''mouthSmileLeft'', 0.3), (''mouthSmileRight'', 0.2)])
        (baseline_or_empty (Some (map_of [(''mouthSmileLeft'', 0.05)]))))
   \<and> smile (expressionScores (map_of [(''mouthSmileLeft'', 0.1), (''mouthSmileRight'', 0.2)])
        (baseline_or_empty (Some (map_of [(''mouthSmileLeft'', 0.05)])))) = 0.2
   \<and> smile (expressionScores (map_of [(''mouthSmileLeft'', 0.3), (''mouthSmileRight'', 0.2)])
        (baseline_or_empty (Some (map_of [(''mouthSmileLeft'', 0.05)])))) = 0.25"
proof -
  let ?lo = "map_of [(''mouthSmileLeft'', 0.1::real), (''mouthSmileRight'', 0.2)]"
  let ?hi = "map_of [(''mouthSmileLeft'', 0.3::real), (''mouthSmileRight'', 0.2)]"
  let ?bl = "Some (map_of [(''mouthSmileLeft'', 0.05::real)])"
  have h1: "\<forall>k. k \<noteq> ''mouthSmileLeft'' \<longrightarrow> ?hi k = ?lo k" by simp
  have h2: "nullish (?lo ''mouthSmileLeft'') 0 \<le> nullish (?hi ''mouthSmileLeft'') 0"
    by (simp add: nullish_def)
  have v1: "smile (expressionScores ?lo (baseline_or_empty ?bl)) = 0.2"
    by (simp add: expressionScores_def get_def nullish_def baseline_or_empty_def)
  have v2: "smile (expressionScores ?hi (baseline_or_empty ?bl)) = 0.25"
    by (simp add: expressionScores_def get_def nullish_def baseline_or_empty_def)
  from smile_score_monotone [OF h1 h2, of ?bl] h2 v1 v2 show ?thesis by blast
qed

section \<open>Empty input\<close>

text \<open>
  C10. \<open>blendMap\<close> of an absent blendshapes object is the empty object, not null,
  and \<open>pickEmoji\<close> on the empty object returns the neutral glyph whenever the stored
  baseline is absent or has no negative value.
\<close>

theorem empty_blend_neutral:
  assumes nonneg: "\<forall>b. baseline s = Some b \<longrightarrow> (\<forall>k v. b k = Some v \<longrightarrow> 0 \<le> v)"
  shows "blendMap None = Map.empty
         \<and> pickEmoji s (Some (blendMap None)) = Some [0x1F610]
         \<and> pickEmoji s (Some Map.empty) = map_of EMOJI_SET ''neutral''"
proof -
  let ?b = "baseline_or_empty (baseline s)"
  have b: "0 \<le> nullish (?b k) 0" for k
  proof (cases "baseline s")
    case None
    then show ?thesis by (simp add: baseline_or_empty_def nullish_def)
  next
    case (Some b)
    with nonneg show ?thesis
      by (cases "b k") (simp_all add: baseline_or_empty_def nullish_def)
  qed
  have g: "get Map.empty ?b k \<le> 0" for k
    using b [of k] by (simp add: get_def nullish_def)
  have "\<forall>(e, v) \<in> set (scored_entries (baseline s) Map.empty). v \<le> 0"
    using g [of "''mouthSmileLeft''"] g [of "''mouthSmileRight''"] g [of "''jawOpen''"]
      g [of "''mouthPucker''"] g [of "''mouthFrownLeft''"] g [of "''mouthFrownRight''"]
      g [of "''cheekPuffLeft''"] g [of "''cheekPuffRight''"] g [of "''tongueOut''"]
    by (simp add: scored_entries_def Object_entries_def expressionScores_def nullish_def
        mult_le_0_iff add_nonpos_nonpos)
  then have "\<forall>(e, v) \<in> set (scored_entries (baseline s) Map.empty). above_threshold e v \<longrightarrow> v \<le> 0.15"
    by auto
  then have "select_loop (''neutral'', 0.15) (scored_entries (baseline s) Map.empty) = (''neutral'', 0.15)"
    by (rule select_loop_stays)
  then have "bestExpression (baseline s) Map.empty = ''neutral''"
    unfolding bestExpression_def by simp
  then show ?thesis
    by (simp add: blendMap_None pickEmoji_def EMOJI_SET_def)
qed

text \<open>
  The theorem at the baseline with \<open>jawOpen\<close> 0.2 and \<open>mouthSmileLeft\<close> 0.
\<close>

theorem empty_blend_neutral_witness:
  "baseline \<lparr>baseline = Some (map_of [(''jawOpen'', 0.2), (''mouthSmileLeft'', 0)]), flashed = []\<rparr>
     = Some (map_of [(''jawOpen'', 0.2), (''mouthSmileLeft'', 0)])
   \<and> pickEmoji \<lparr>baseline = Some (map_of [(''jawOpen'', 0.2), (''mouthSmileLeft'', 0)]), flashed = []\<rparr>
        (Some (blendMap None)) = Some [0x1F610]"
proof -
  let ?s = "\<lparr>baseline = Some (map_of [(''jawOpen'', 0.2::real), (''mouthSmileLeft'', 0)]), flashed = []\<rparr>"
  have h: "\<forall>b. baseline ?s = Some b \<longrightarrow> (\<forall>k v. b k = Some v \<longrightarrow> 0 \<le> v)"
    by (auto split: if_splits)
  have b: "baseline ?s = Some (map_of [(''jawOpen'', 0.2), (''mouthSmileLeft'', 0)])"
    by simp
  from empty_blend_neutral [OF h] b show ?thesis by blast
qed

end
